theory Spec2Isabelle
  imports Main
begin

section \<open>Exceptions and outcomes\<close>

text \<open>
  The exception classes that the methods of \<^verbatim>\<open>GsToDfConverter\<close> can meet.
  \<^verbatim>\<open>SpreadsheetNotFound\<close>, \<^verbatim>\<open>WorksheetNotFound\<close> and \<^verbatim>\<open>APIError\<close> are
  sibling subclasses of gspread's \<^verbatim>\<open>GSpreadException\<close>; \<^verbatim>\<open>IndexError\<close> is
  Python's own.  \<^verbatim>\<open>InvalidAddressError\<close> is the error the specification names for a
  malformed column-letter string; no statement of the source raises it.
\<close>

datatype py_error =
    SpreadsheetNotFound
  | WorksheetNotFound
  | APIError
  | IndexError
  | InvalidAddressError

section \<open>Column letters: \<^verbatim>\<open>get_col_number\<close>\<close>

text \<open>Python's \<^verbatim>\<open>ord\<close> on a one-character string.\<close>

definition ord :: "char \<Rightarrow> int" where
  "ord c = of_char c"

text \<open>
  \<^verbatim>\<open>
  def get_col_number(self, col_letter):
      result = 0
      for char in col_letter:
          result = result * 26 + (ord(char) - ord("A") + 1)
      return result
  \<close>
  The \<^verbatim>\<open>for\<close> loop is a left fold over the characters with the running
  \<^verbatim>\<open>result\<close> as accumulator.  Python's integers are unbounded, so the result is an
  \<^typ>\<open>int\<close>.  The body has no \<^verbatim>\<open>raise\<close> and no operation that can fail on a
  string, so the method always returns normally (\<open>Inr\<close>).
\<close>

definition col_step :: "int \<Rightarrow> char \<Rightarrow> int" where
  "col_step result char = result * 26 + (ord char - ord CHR ''A'' + 1)"

definition get_col_number :: "string \<Rightarrow> py_error + int" where
  "get_col_number col_letter = Inr (foldl col_step 0 col_letter)"

subsection \<open>The specification's reading of column letters\<close>

text \<open>
  The letter value of the specification: \<open>A\<close> is 1, ..., \<open>Z\<close> is 26.
\<close>

definition is_upper :: "char \<Rightarrow> bool" where
  "is_upper c \<longleftrightarrow> ord CHR ''A'' \<le> ord c \<and> ord c \<le> ord CHR ''Z''"

definition is_alpha :: "char \<Rightarrow> bool" where
  "is_alpha c \<longleftrightarrow> is_upper c \<or> (ord CHR ''a'' \<le> ord c \<and> ord c \<le> ord CHR ''z'')"

definition letter_value :: "char \<Rightarrow> int" where
  "letter_value c = ord c - 64"

text \<open>A valid column-letter string: non-empty, every character in \<open>A\<close>..\<open>Z\<close>.\<close>

definition valid_col_letters :: "string \<Rightarrow> bool" where
  "valid_col_letters s \<longleftrightarrow> s \<noteq> [] \<and> list_all is_upper s"

text \<open>
  Bijective base-26 numeration, as a positional sum: the digit at distance \<open>k\<close> from
  the right end weighs \<open>26 ^ k\<close>, and the digits are the letter values 1..26 (there is
  no zero digit).
\<close>

fun bijective_base26 :: "string \<Rightarrow> int" where
  "bijective_base26 [] = 0"
| "bijective_base26 (c # cs) = letter_value c * 26 ^ length cs + bijective_base26 cs"

text \<open>
  A malformed column-letter string in the specification's sense: empty, or with a
  character that is not a letter.
\<close>

definition malformed_col_letters :: "string \<Rightarrow> bool" where
  "malformed_col_letters s \<longleftrightarrow> s = [] \<or> \<not> list_all is_alpha s"

text \<open>
  Spreadsheet column order on letter strings: shorter strings first, and among strings
  of one length the lexicographic order of the characters.
\<close>

fun lex_lt :: "string \<Rightarrow> string \<Rightarrow> bool" where
  "lex_lt [] [] = False"
| "lex_lt [] (y # ys) = True"
| "lex_lt (x # xs) [] = False"
| "lex_lt (x # xs) (y # ys) = (ord x < ord y \<or> (ord x = ord y \<and> lex_lt xs ys))"

definition precedes :: "string \<Rightarrow> string \<Rightarrow> bool" where
  "precedes s t \<longleftrightarrow> length s < length t \<or> (length s = length t \<and> lex_lt s t)"

section \<open>The collaborators: the remote document and the table\<close>

text \<open>
  The remote document is not part of the source; it is reached through gspread.  It is
  modelled at the interface the source uses: a document is a finite set of tabs with
  unique titles, each with a grid size and a value grid (the rows of strings that
  \<^verbatim>\<open>get_all_values\<close> returns).  A \<^verbatim>\<open>Worksheet\<close> object is a handle on one remote tab,
  here its title.  Network and permission failures of the transport are not modelled:
  every statement below is about calls that the transport carries out.
\<close>

record gs_worksheet =
  row_count :: nat
  col_count :: nat
  cells :: "string list list"

type_synonym spreadsheet = "string \<rightharpoonup> gs_worksheet"

type_synonym tab_handle = string

text \<open>
  \<^verbatim>\<open>Spreadsheet.worksheet(title)\<close>: gspread raises \<^verbatim>\<open>WorksheetNotFound\<close> when no tab
  has the title.
\<close>

definition worksheet :: "spreadsheet \<Rightarrow> string \<Rightarrow> py_error + tab_handle" where
  "worksheet sheet title =
     (case sheet title of None \<Rightarrow> Inl WorksheetNotFound | Some _ \<Rightarrow> Inr title)"

text \<open>
  \<^verbatim>\<open>Spreadsheet.add_worksheet(title, rows, cols)\<close>: a new tab with an empty value
  grid; the service refuses a title that is in use.
\<close>

definition add_worksheet ::
  "string \<Rightarrow> nat \<Rightarrow> nat \<Rightarrow> spreadsheet \<Rightarrow> (py_error + tab_handle) \<times> spreadsheet" where
  "add_worksheet title rows cols sheet =
     (case sheet title of
        Some _ \<Rightarrow> (Inl APIError, sheet)
      | None \<Rightarrow> (Inr title, sheet(title \<mapsto> \<lparr>row_count = rows, col_count = cols, cells = []\<rparr>)))"

definition get_all_values :: "spreadsheet \<Rightarrow> tab_handle \<Rightarrow> py_error + string list list" where
  "get_all_values sheet tab =
     (case sheet tab of None \<Rightarrow> Inl APIError | Some w \<Rightarrow> Inr (cells w))"

text \<open>
  A bulk write from the first cell lays the new rows over the old grid: a written cell
  replaces the old one, cells to the right of and below the written block stay.
\<close>

fun overlay :: "'a list list \<Rightarrow> 'a list list \<Rightarrow> 'a list list" where
  "overlay old [] = old"
| "overlay [] new = new"
| "overlay (r # old) (n # new) = (n @ drop (length n) r) # overlay old new"

text \<open>The grid grows to hold what is written into it.\<close>

definition store :: "gs_worksheet \<Rightarrow> string list list \<Rightarrow> gs_worksheet" where
  "store w vs =
     \<lparr>row_count = max (row_count w) (length vs),
      col_count = max (col_count w) (foldr (\<lambda>r m. max (length r) m) vs 0),
      cells = vs\<rparr>"

text \<open>
  \<^verbatim>\<open>Worksheet.update(range_name="A1", values=...)\<close>, the only range the source
  passes.
\<close>

definition update_A1 ::
  "tab_handle \<Rightarrow> string list list \<Rightarrow> spreadsheet \<Rightarrow> (py_error + unit) \<times> spreadsheet" where
  "update_A1 tab vs sheet =
     (case sheet tab of
        None \<Rightarrow> (Inl APIError, sheet)
      | Some w \<Rightarrow> (Inr (), sheet(tab \<mapsto> store w (overlay (cells w) vs))))"

text \<open>\<^verbatim>\<open>Worksheet.append_rows(values)\<close>: the rows go below the existing ones.\<close>

definition append_rows ::
  "tab_handle \<Rightarrow> string list list \<Rightarrow> spreadsheet \<Rightarrow> (py_error + unit) \<times> spreadsheet" where
  "append_rows tab vs sheet =
     (case sheet tab of
        None \<Rightarrow> (Inl APIError, sheet)
      | Some w \<Rightarrow> (Inr (), sheet(tab \<mapsto> store w (cells w @ vs))))"

text \<open>
  The table (a pandas \<^verbatim>\<open>DataFrame\<close>) as the source reads it:
  \<^verbatim>\<open>df.columns.values.tolist()\<close> is the header row (\<open>columns\<close>) and
  \<^verbatim>\<open>df.values.tolist()\<close> the data rows (\<open>df_values\<close>);
  \<^verbatim>\<open>DataFrame(data, columns=header)\<close> builds one (pandas' own shape checks on ragged
  rows are outside this model).
\<close>

record dataframe =
  columns :: "string list"
  df_values :: "string list list"

text \<open>Python's \<^verbatim>\<open>xs[0]\<close>: \<^verbatim>\<open>IndexError\<close> on the empty list.\<close>

definition getitem0 :: "'a list \<Rightarrow> py_error + 'a" where
  "getitem0 xs = (case xs of [] \<Rightarrow> Inl IndexError | x # _ \<Rightarrow> Inr x)"

section \<open>The methods of \<^verbatim>\<open>GsToDfConverter\<close>\<close>

text \<open>
  A method that changes the document returns its outcome and the document after the
  call.  A method that only reads returns its outcome and the lines it printed.
  An \<^verbatim>\<open>except gspread.exceptions.SpreadsheetNotFound\<close> clause handles that class
  only; any other exception leaves the method.
\<close>

text \<open>
  \<^verbatim>\<open>
  try:
      focus_tab = self.sheet.worksheet(worksheet_name)
  except gspread.exceptions.SpreadsheetNotFound:
      self.sheet.add_worksheet(worksheet_name, 1, len(df.columns))
      focus_tab = self.sheet.worksheet(worksheet_name)
  \<close>
  The \<^verbatim>\<open>try\<close> statement of \<^verbatim>\<open>upload\<close>, given the outcome of the lookup in its
  body.
\<close>

definition upload_resolve ::
  "py_error + tab_handle \<Rightarrow> dataframe \<Rightarrow> string \<Rightarrow> spreadsheet
     \<Rightarrow> (py_error + tab_handle) \<times> spreadsheet" where
  "upload_resolve looked_up df worksheet_name sheet =
     (case looked_up of
        Inr focus_tab \<Rightarrow> (Inr focus_tab, sheet)
      | Inl e \<Rightarrow>
          if e = SpreadsheetNotFound then
            (case add_worksheet worksheet_name 1 (length (columns df)) sheet of
               (Inl e', sheet') \<Rightarrow> (Inl e', sheet')
             | (Inr _, sheet') \<Rightarrow> (worksheet sheet' worksheet_name, sheet'))
          else (Inl e, sheet))"

text \<open>
  \<^verbatim>\<open>
  if focus_tab.get_all_values() == []:
      focus_tab.update(range_name="A1",
                       values=[df.columns.values.tolist()] + df.values.tolist())
  else:
      focus_tab.append_rows(df.values.tolist())
  \<close>
\<close>

definition upload_write ::
  "tab_handle \<Rightarrow> dataframe \<Rightarrow> spreadsheet \<Rightarrow> (py_error + unit) \<times> spreadsheet" where
  "upload_write focus_tab df sheet =
     (case get_all_values sheet focus_tab of
        Inl e \<Rightarrow> (Inl e, sheet)
      | Inr sheet_data \<Rightarrow>
          if sheet_data = [] then update_A1 focus_tab ([columns df] @ df_values df) sheet
          else append_rows focus_tab (df_values df) sheet)"

definition upload :: "dataframe \<Rightarrow> string \<Rightarrow> spreadsheet \<Rightarrow> (py_error + unit) \<times> spreadsheet" where
  "upload df worksheet_name sheet =
     (case upload_resolve (worksheet sheet worksheet_name) df worksheet_name sheet of
        (Inl e, sheet') \<Rightarrow> (Inl e, sheet')
      | (Inr focus_tab, sheet') \<Rightarrow> upload_write focus_tab df sheet')"

text \<open>
  \<^verbatim>\<open>
  try:
      focus_tab = self.sheet.worksheet(worksheet_name)
  except gspread.exceptions.SpreadsheetNotFound:
      print(f"There is no {worksheet_name} worksheet in the Google Sheets")
      return None
  return focus_tab
  \<close>
\<close>

definition get_focus_tab ::
  "spreadsheet \<Rightarrow> string \<Rightarrow> (py_error + tab_handle option) \<times> string list" where
  "get_focus_tab sheet worksheet_name =
     (case worksheet sheet worksheet_name of
        Inr focus_tab \<Rightarrow> (Inr (Some focus_tab), [])
      | Inl e \<Rightarrow>
          if e = SpreadsheetNotFound then
            (Inr None, [''There is no '' @ worksheet_name @ '' worksheet in the Google Sheets''])
          else (Inl e, []))"

text \<open>
  \<^verbatim>\<open>
  focus_tab = self.get_focus_tab(worksheet_name)
  if focus_tab:
      sheet_data = focus_tab.get_all_values()
      df = DataFrame(sheet_data[1:], columns=sheet_data[0])
      return df
  return None
  \<close>
  Python evaluates the arguments of the call in order: the slice \<^verbatim>\<open>sheet_data[1:]\<close>
  never fails, the index \<^verbatim>\<open>sheet_data[0]\<close> fails on an empty list.
\<close>

definition get_sheet_as_df ::
  "spreadsheet \<Rightarrow> string \<Rightarrow> (py_error + dataframe option) \<times> string list" where
  "get_sheet_as_df sheet worksheet_name =
     (case get_focus_tab sheet worksheet_name of
        (Inl e, out) \<Rightarrow> (Inl e, out)
      | (Inr None, out) \<Rightarrow> (Inr None, out)
      | (Inr (Some focus_tab), out) \<Rightarrow>
          (case get_all_values sheet focus_tab of
             Inl e \<Rightarrow> (Inl e, out)
           | Inr sheet_data \<Rightarrow>
               (case getitem0 sheet_data of
                  Inl e \<Rightarrow> (Inl e, out)
                | Inr header \<Rightarrow>
                    (Inr (Some \<lparr>columns = header, df_values = drop 1 sheet_data\<rparr>), out))))"

text \<open>
  \<^verbatim>\<open>
  focus_tab = self.get_focus_tab(worksheet_name)
  col_number = self.get_col_number(col_letter)
  return focus_tab.col_values(col_number) if focus_tab else None
  \<close>
  The transport's \<^verbatim>\<open>col_values\<close> is a parameter.
\<close>

definition get_col_values_as_list ::
  "(spreadsheet \<Rightarrow> tab_handle \<Rightarrow> int \<Rightarrow> py_error + string list)
     \<Rightarrow> spreadsheet \<Rightarrow> string \<Rightarrow> string \<Rightarrow> (py_error + string list option) \<times> string list" where
  "get_col_values_as_list col_values sheet worksheet_name col_letter =
     (case get_focus_tab sheet worksheet_name of
        (Inl e, out) \<Rightarrow> (Inl e, out)
      | (Inr focus_tab, out) \<Rightarrow>
          (case get_col_number col_letter of
             Inl e \<Rightarrow> (Inl e, out)
           | Inr col_number \<Rightarrow>
               (case focus_tab of
                  Some tab \<Rightarrow> (map_sum id Some (col_values sheet tab col_number), out)
                | None \<Rightarrow> (Inr None, out))))"

text \<open>
  \<^verbatim>\<open>
  focus_tab = self.get_focus_tab(worksheet_name)
  return focus_tab.acell(cell).value if focus_tab else None
  \<close>
  The transport's \<^verbatim>\<open>acell(cell).value\<close> is a parameter; a blank cell may give
  \<^verbatim>\<open>None\<close>.
\<close>

definition get_cell_value ::
  "(spreadsheet \<Rightarrow> tab_handle \<Rightarrow> string \<Rightarrow> py_error + string option)
     \<Rightarrow> spreadsheet \<Rightarrow> string \<Rightarrow> string \<Rightarrow> (py_error + string option) \<times> string list" where
  "get_cell_value acell_value sheet worksheet_name cell =
     (case get_focus_tab sheet worksheet_name of
        (Inl e, out) \<Rightarrow> (Inl e, out)
      | (Inr (Some tab), out) \<Rightarrow> (acell_value sheet tab cell, out)
      | (Inr None, out) \<Rightarrow> (Inr None, out))"

definition get_colA_as_list ::
  "(spreadsheet \<Rightarrow> tab_handle \<Rightarrow> int \<Rightarrow> py_error + string list)
     \<Rightarrow> spreadsheet \<Rightarrow> string \<Rightarrow> (py_error + string list option) \<times> string list" where
  "get_colA_as_list col_values sheet worksheet_name =
     get_col_values_as_list col_values sheet worksheet_name ''A''"

definition get_A1_value ::
  "(spreadsheet \<Rightarrow> tab_handle \<Rightarrow> string \<Rightarrow> py_error + string option)
     \<Rightarrow> spreadsheet \<Rightarrow> string \<Rightarrow> (py_error + string option) \<times> string list" where
  "get_A1_value acell_value sheet worksheet_name =
     get_cell_value acell_value sheet worksheet_name ''A1''"

section \<open>Column letters: properties\<close>

lemma ord_A: "ord CHR ''A'' = 65"
  by (simp add: ord_def)

lemma ord_Z: "ord CHR ''Z'' = 90"
  by (simp add: ord_def)

lemma col_step_letter_value: "col_step r c = r * 26 + letter_value c"
  by (simp add: col_step_def letter_value_def ord_A)

text \<open>The loop started from any running total, against the positional sum.\<close>

lemma foldl_col_step: "foldl col_step acc s = acc * 26 ^ length s + bijective_base26 s"
  by (induction s arbitrary: acc) (simp_all add: col_step_letter_value algebra_simps)

lemma get_col_number_base26: "get_col_number s = Inr (bijective_base26 s)"
  by (simp add: get_col_number_def foldl_col_step)

lemma bijective_base26_snoc:
  "bijective_base26 (s @ [c]) = bijective_base26 s * 26 + letter_value c"
  using foldl_col_step [of 0 "s @ [c]"] foldl_col_step [of 0 s]
  by (simp add: col_step_letter_value)

lemma letter_value_range: "is_upper c \<Longrightarrow> 1 \<le> letter_value c \<and> letter_value c \<le> 26"
  by (simp add: is_upper_def letter_value_def ord_A ord_Z)

lemma lex_arith:
  "a + p \<le> b \<Longrightarrow> 25 * u \<le> 26 * (p - 1) \<Longrightarrow> p - 1 \<le> 25 * v \<Longrightarrow> a + u < b + (v::int)"
  by (simp only: right_diff_distrib)

lemma upper_arith:
  "q \<le> 26 * p \<Longrightarrow> 25 * b \<le> 26 * (p - 1) \<Longrightarrow> 25 * (q + b) \<le> 26 * (26 * p - (1::int))"
  by (simp only: distrib_left right_diff_distrib)

lemma lower_arith:
  "p \<le> q \<Longrightarrow> p - 1 \<le> 25 * b \<Longrightarrow> 26 * p - 1 \<le> 25 * (q + (b::int))"
  by (simp only: distrib_left)

text \<open>
  The strings of \<open>n\<close> uppercase letters take the values from \<open>(26 ^ n - 1) div 25\<close>
  (all \<open>A\<close>) to \<open>26 * (26 ^ n - 1) div 25\<close> (all \<open>Z\<close>).
\<close>

lemma base26_lower: "list_all is_upper s \<Longrightarrow> 26 ^ length s - 1 \<le> 25 * bijective_base26 s"
proof (induction s)
  case Nil
  then show ?case by simp
next
  case (Cons c cs)
  define p :: int where "p = 26 ^ length cs"
  define q where "q = letter_value c * p"
  from Cons have ih: "p - 1 \<le> 25 * bijective_base26 cs" and lv: "1 \<le> letter_value c"
    using letter_value_range by (simp_all add: p_def)
  have "0 \<le> p" by (simp add: p_def)
  then have "1 * p \<le> q" unfolding q_def using lv by (rule mult_right_mono [rotated])
  then have "p \<le> q" by simp
  moreover have "bijective_base26 (c # cs) = q + bijective_base26 cs"
    by (simp add: p_def q_def)
  moreover have "(26::int) ^ length (c # cs) = 26 * p" by (simp add: p_def)
  ultimately show ?case using lower_arith [OF _ ih] by simp
qed

lemma base26_upper:
  "list_all is_upper s \<Longrightarrow> 25 * bijective_base26 s \<le> 26 * (26 ^ length s - 1)"
proof (induction s)
  case Nil
  then show ?case by simp
next
  case (Cons c cs)
  define p :: int where "p = 26 ^ length cs"
  define q where "q = letter_value c * p"
  from Cons have ih: "25 * bijective_base26 cs \<le> 26 * (p - 1)" and lv: "letter_value c \<le> 26"
    using letter_value_range by (simp_all add: p_def)
  have "0 \<le> p" by (simp add: p_def)
  then have "q \<le> 26 * p" unfolding q_def using lv by (rule mult_right_mono [rotated])
  moreover have "bijective_base26 (c # cs) = q + bijective_base26 cs"
    by (simp add: p_def q_def)
  moreover have "(26::int) ^ length (c # cs) = 26 * p" by (simp add: p_def)
  ultimately show ?case using upper_arith [OF _ ih] by simp
qed

lemma base26_positive:
  assumes "valid_col_letters s"
  shows "0 < bijective_base26 s"
proof -
  from assms have "s \<noteq> []" and up: "list_all is_upper s"
    by (simp_all add: valid_col_letters_def)
  then have "Suc 0 \<le> length s" by (cases s) simp_all
  then have "(26::int) ^ Suc 0 \<le> 26 ^ length s"
    by (rule power_increasing) simp
  with base26_lower [OF up] show ?thesis by simp
qed

lemma base26_shorter:
  assumes "list_all is_upper s" "list_all is_upper t" "length s < length t"
  shows "bijective_base26 s < bijective_base26 t"
proof -
  have "Suc (length s) \<le> length t" using assms(3) by simp
  then have "(26::int) ^ Suc (length s) \<le> 26 ^ length t"
    by (rule power_increasing) simp
  then have "26 * (26 ^ length s - 1) < (26::int) ^ length t - 1" by simp
  with base26_upper [OF assms(1)] base26_lower [OF assms(2)] show ?thesis by linarith
qed

lemma base26_lex:
  "length s = length t \<Longrightarrow> list_all is_upper s \<Longrightarrow> list_all is_upper t \<Longrightarrow> lex_lt s t
     \<Longrightarrow> bijective_base26 s < bijective_base26 t"
proof (induction s t rule: lex_lt.induct)
  case (4 x xs y ys)
  define p :: int where "p = 26 ^ length ys"
  have len: "length xs = length ys" using 4(2) by simp
  have sx: "bijective_base26 (x # xs) = letter_value x * p + bijective_base26 xs"
    and sy: "bijective_base26 (y # ys) = letter_value y * p + bijective_base26 ys"
    by (simp_all add: p_def len)
  show ?case
  proof (cases "ord x < ord y")
    case True
    then have "letter_value x + 1 \<le> letter_value y" by (simp add: letter_value_def)
    moreover have "0 \<le> p" by (simp add: p_def)
    ultimately have "(letter_value x + 1) * p \<le> letter_value y * p"
      by (rule mult_right_mono)
    then have "letter_value x * p + p \<le> letter_value y * p" by (simp add: algebra_simps)
    moreover have "25 * bijective_base26 xs \<le> 26 * (p - 1)"
      using base26_upper [of xs] 4(3) by (simp add: p_def len)
    moreover have "p - 1 \<le> 25 * bijective_base26 ys"
      using base26_lower [of ys] 4(4) by (simp add: p_def)
    ultimately show ?thesis unfolding sx sy by (rule lex_arith)
  next
    case False
    with 4 have "ord x = ord y" "bijective_base26 xs < bijective_base26 ys" by simp_all
    then show ?thesis unfolding sx sy by (simp add: letter_value_def)
  qed
qed simp_all

text \<open>
  C1.  On every non-empty string of letters \<open>A\<close>..\<open>Z\<close>, \<^verbatim>\<open>get_col_number\<close> returns the
  bijective base-26 value of the string: the positional sum of the letter values, each
  of them between 1 and 26, which is positive; one more letter on the right multiplies
  the running total by 26 and adds the letter's value.  In particular \<open>A\<close> gives 1,
  \<open>Z\<close> 26, \<open>AA\<close> 27, \<open>AZ\<close> 52 and \<open>BA\<close> 53.
\<close>

theorem get_col_number_bijective_base26:
  assumes "valid_col_letters s"
  shows "get_col_number s = Inr (bijective_base26 s)
       \<and> list_all (\<lambda>c. 1 \<le> letter_value c \<and> letter_value c \<le> 26) s
       \<and> 0 < bijective_base26 s
       \<and> (\<forall>c. get_col_number (s @ [c]) = Inr (bijective_base26 s * 26 + letter_value c))
       \<and> get_col_number ''A'' = Inr 1
       \<and> get_col_number ''Z'' = Inr 26
       \<and> get_col_number ''AA'' = Inr 27
       \<and> get_col_number ''AZ'' = Inr 52
       \<and> get_col_number ''BA'' = Inr 53"
proof -
  from assms have "list_all is_upper s" by (simp add: valid_col_letters_def)
  then have "list_all (\<lambda>c. 1 \<le> letter_value c \<and> letter_value c \<le> 26) s"
    using letter_value_range by (simp add: list_all_iff)
  moreover have "\<forall>c. get_col_number (s @ [c]) = Inr (bijective_base26 s * 26 + letter_value c)"
    by (simp add: get_col_number_base26 bijective_base26_snoc)
  moreover have "get_col_number ''A'' = Inr 1" "get_col_number ''Z'' = Inr 26"
    "get_col_number ''AA'' = Inr 27" "get_col_number ''AZ'' = Inr 52"
    "get_col_number ''BA'' = Inr 53"
    by (simp_all add: get_col_number_def col_step_def ord_def)
  ultimately show ?thesis
    using base26_positive [OF assms] by (simp add: get_col_number_base26)
qed

theorem get_col_number_bijective_base26_witness:
  "valid_col_letters ''AZ'' \<and> get_col_number ''AZ'' = Inr (1 * 26 + 26)
   \<and> bijective_base26 ''AZ'' = 52"
proof -
  have v: "valid_col_letters ''AZ''"
    by (simp add: valid_col_letters_def is_upper_def ord_def)
  have "get_col_number ''AZ'' = Inr (bijective_base26 ''AZ'')"
    using get_col_number_bijective_base26 [OF v] by blast
  then show ?thesis using v by (simp add: letter_value_def ord_def)
qed

text \<open>
  C7.  \<^verbatim>\<open>get_col_number\<close> is strictly increasing in spreadsheet column order: when
  \<open>s\<close> and \<open>t\<close> are valid uppercase letter strings and \<open>s\<close> comes before \<open>t\<close> (it is
  shorter, or of the same length and lexicographically smaller), the number of \<open>s\<close> is
  smaller than the number of \<open>t\<close>.
\<close>

theorem get_col_number_strictly_monotone:
  assumes "valid_col_letters s" and "valid_col_letters t" and "precedes s t"
  shows "\<exists>m n. get_col_number s = Inr m \<and> get_col_number t = Inr n \<and> m < n"
  using assms base26_shorter [of s t] base26_lex [of s t]
  by (auto simp: get_col_number_base26 valid_col_letters_def precedes_def)

theorem get_col_number_strictly_monotone_witness:
  "valid_col_letters ''AZ'' \<and> valid_col_letters ''BA'' \<and> precedes ''AZ'' ''BA''
   \<and> (\<exists>m n. get_col_number ''AZ'' = Inr m \<and> get_col_number ''BA'' = Inr n \<and> m < n)"
proof -
  have v: "valid_col_letters ''AZ''" "valid_col_letters ''BA''"
    by (simp_all add: valid_col_letters_def is_upper_def ord_def)
  have p: "precedes ''AZ'' ''BA''"
    by (simp add: precedes_def ord_def)
  show ?thesis
    using v p get_col_number_strictly_monotone [OF v p] by simp
qed

text \<open>
  C10.  \<^verbatim>\<open>get_col_number\<close> returns an integer on every string and never raises.  The
  empty string gives 0.  No character is checked: whatever the last character is, it
  enters the multiply-add step with \<open>ord(char) - ord("A") + 1\<close>, so that the lowercase
  \<open>a\<close> gives 33 and \<open>!\<close> gives the negative number -31.
\<close>

theorem get_col_number_total:
  "(\<exists>n. get_col_number s = Inr n)
   \<and> get_col_number [] = Inr 0
   \<and> get_col_number (s @ [c])
       = Inr (bijective_base26 s * 26 + (ord c - ord CHR ''A'' + 1))
   \<and> get_col_number ''a'' = Inr 33
   \<and> get_col_number ''!'' = Inr (- 31)"
proof -
  have "get_col_number (s @ [c]) = Inr (bijective_base26 s * 26 + (ord c - ord CHR ''A'' + 1))"
    by (simp add: get_col_number_base26 bijective_base26_snoc letter_value_def ord_A)
  moreover have "get_col_number ''a'' = Inr 33" "get_col_number ''!'' = Inr (- 31)"
    by (simp_all add: get_col_number_def col_step_def ord_def)
  ultimately show ?thesis by (simp add: get_col_number_def)
qed

text \<open>
  C6, as the specification states it: a malformed column-letter string makes the
  conversion fail with \<^verbatim>\<open>InvalidAddressError\<close>.  The source does not: the empty
  string gives 0 and \<open>A1\<close> gives 11.
\<close>

theorem get_col_number_malformed_counterexample:
  "malformed_col_letters '''' \<and> get_col_number '''' = Inr 0
   \<and> get_col_number '''' \<noteq> Inl InvalidAddressError
   \<and> malformed_col_letters ''A1'' \<and> get_col_number ''A1'' = Inr 11
   \<and> get_col_number ''A1'' \<noteq> Inl InvalidAddressError"
  by (simp add: malformed_col_letters_def is_alpha_def is_upper_def get_col_number_def
      col_step_def ord_def)

text \<open>
  C6, amended.  On every malformed column-letter string \<^verbatim>\<open>get_col_number\<close> raises
  nothing, \<^verbatim>\<open>InvalidAddressError\<close> included: it returns the integer that the unchecked
  multiply-add loop gives, the positional sum of \<open>ord(char) - 64\<close> over the characters,
  which is 0 on the empty string.
\<close>

theorem get_col_number_malformed_returns:
  assumes "malformed_col_letters s"
  shows "get_col_number s = Inr (bijective_base26 s)
       \<and> get_col_number s \<noteq> Inl InvalidAddressError
       \<and> (s = [] \<longrightarrow> get_col_number s = Inr 0)"
  by (simp add: get_col_number_base26)

theorem get_col_number_malformed_returns_witness:
  "malformed_col_letters ''A1'' \<and> get_col_number ''A1'' = Inr (1 * 26 + (49 - 64))"
proof -
  have m: "malformed_col_letters ''A1''"
    by (simp add: malformed_col_letters_def is_alpha_def is_upper_def ord_def)
  have "get_col_number ''A1'' = Inr (bijective_base26 ''A1'')"
    using get_col_number_malformed_returns [OF m] by blast
  then show ?thesis using m by (simp add: letter_value_def ord_def)
qed

section \<open>The document: properties\<close>

lemma get_all_values_Inr:
  "get_all_values sheet name = Inr vs \<longleftrightarrow> (\<exists>w. sheet name = Some w \<and> cells w = vs)"
  by (auto simp: get_all_values_def split: option.splits)

lemma overlay_Nil: "overlay [] new = new"
  by (cases new) simp_all

text \<open>On a tab that exists the lookup succeeds and the handler is not entered.\<close>

lemma upload_existing:
  "sheet name = Some w \<Longrightarrow> upload df name sheet = upload_write name df sheet"
  by (simp add: upload_def upload_resolve_def worksheet_def)

text \<open>
  What the handler of \<^verbatim>\<open>upload\<close> does once it is entered: it creates the tab with one
  row and as many columns as the table has, and the write that follows fills it with
  the header row and the data rows.
\<close>

lemma upload_resolve_handler:
  "sheet worksheet_name = None \<Longrightarrow>
   upload_resolve (Inl SpreadsheetNotFound) df worksheet_name sheet
     = (Inr worksheet_name,
        sheet(worksheet_name \<mapsto> \<lparr>row_count = 1, col_count = length (columns df), cells = []\<rparr>))"
  by (simp add: upload_resolve_def add_worksheet_def worksheet_def)

lemma upload_write_new_tab:
  "upload_write worksheet_name df
     (sheet(worksheet_name \<mapsto> \<lparr>row_count = 1, col_count = length (columns df), cells = []\<rparr>))
   = (Inr (),
      sheet(worksheet_name \<mapsto>
        store \<lparr>row_count = 1, col_count = length (columns df), cells = []\<rparr>
          (columns df # df_values df)))"
  by (simp add: upload_write_def get_all_values_def update_A1_def)

text \<open>A handler for another class does not intercept \<^verbatim>\<open>WorksheetNotFound\<close>.\<close>

lemma upload_resolve_other:
  "upload_resolve (Inl WorksheetNotFound) df worksheet_name sheet = (Inl WorksheetNotFound, sheet)"
  by (simp add: upload_resolve_def)

text \<open>Reading a tab with at least one row: the first row names the columns.\<close>

lemma get_sheet_as_df_nonempty:
  assumes "get_all_values sheet worksheet_name = Inr (header # rows)"
  shows "get_sheet_as_df sheet worksheet_name
           = (Inr (Some \<lparr>columns = header, df_values = rows\<rparr>), [])"
proof -
  from assms obtain w where "sheet worksheet_name = Some w" "cells w = header # rows"
    by (auto simp: get_all_values_Inr)
  then show ?thesis
    by (simp add: get_sheet_as_df_def get_focus_tab_def worksheet_def get_all_values_def
        getitem0_def)
qed

text \<open>
  C2.  \<^verbatim>\<open>upload\<close> into a tab whose value grid has no rows is one bulk write from cell
  \<open>A1\<close> of the header row followed by the data rows; it succeeds, and afterwards the
  value grid of the tab is exactly the header row followed by the data rows.
\<close>

theorem upload_empty_tab_bulk_write:
  assumes "get_all_values sheet worksheet_name = Inr []"
  shows "upload df worksheet_name sheet
           = update_A1 worksheet_name (columns df # df_values df) sheet
       \<and> fst (upload df worksheet_name sheet) = Inr ()
       \<and> get_all_values (snd (upload df worksheet_name sheet)) worksheet_name
           = Inr (columns df # df_values df)"
proof -
  from assms obtain w where w: "sheet worksheet_name = Some w" "cells w = []"
    by (auto simp: get_all_values_Inr)
  have "upload df worksheet_name sheet
      = update_A1 worksheet_name (columns df # df_values df) sheet"
    using assms w(1) by (simp add: upload_existing [of sheet worksheet_name w] upload_write_def)
  moreover have "update_A1 worksheet_name (columns df # df_values df) sheet
      = (Inr (), sheet(worksheet_name \<mapsto> store w (columns df # df_values df)))"
    using w by (simp add: update_A1_def overlay_Nil)
  ultimately show ?thesis by (simp add: get_all_values_def store_def)
qed

theorem upload_empty_tab_bulk_write_witness:
  "get_all_values [''T'' \<mapsto> \<lparr>row_count = 1, col_count = 1, cells = []\<rparr>] ''T'' = Inr []
   \<and> get_all_values
        (snd (upload \<lparr>columns = [''X''], df_values = [[''1''], [''2'']]\<rparr> ''T''
                [''T'' \<mapsto> \<lparr>row_count = 1, col_count = 1, cells = []\<rparr>])) ''T''
       = Inr [[''X''], [''1''], [''2'']]"
proof -
  have h: "get_all_values [''T'' \<mapsto> \<lparr>row_count = 1, col_count = 1, cells = []\<rparr>] ''T'' = Inr []"
    by (simp add: get_all_values_def)
  have "get_all_values
          (snd (upload \<lparr>columns = [''X''], df_values = [[''1''], [''2'']]\<rparr> ''T''
                  [''T'' \<mapsto> \<lparr>row_count = 1, col_count = 1, cells = []\<rparr>])) ''T''
        = Inr (columns \<lparr>columns = [''X''], df_values = [[''1''], [''2'']]\<rparr>
               # df_values \<lparr>columns = [''X''], df_values = [[''1''], [''2'']]\<rparr>)"
    using upload_empty_tab_bulk_write [OF h] by blast
  then show ?thesis using h by simp
qed

text \<open>
  C3.  \<^verbatim>\<open>upload\<close> into a tab whose value grid has rows is one append of the table's
  data rows: the header row of the table is not written, the rows arrive in the table's
  order with their cells as given, whatever the column names of the table and of the tab
  are.  Afterwards the rows that were there, the first one included, are unchanged, the
  grid has exactly as many more rows as the table has data rows, and no other tab has
  changed.
\<close>

theorem upload_nonempty_tab_appends:
  assumes "get_all_values sheet worksheet_name = Inr old" and "old \<noteq> []"
  shows "upload df worksheet_name sheet = append_rows worksheet_name (df_values df) sheet
       \<and> fst (upload df worksheet_name sheet) = Inr ()
       \<and> (\<exists>new. get_all_values (snd (upload df worksheet_name sheet)) worksheet_name = Inr new
             \<and> new = old @ df_values df
             \<and> take (length old) new = old
             \<and> hd new = hd old
             \<and> drop (length old) new = df_values df
             \<and> length new = length old + length (df_values df))
       \<and> (\<forall>other. other \<noteq> worksheet_name
             \<longrightarrow> snd (upload df worksheet_name sheet) other = sheet other)"
proof -
  from assms obtain w where w: "sheet worksheet_name = Some w" "cells w = old"
    by (auto simp: get_all_values_Inr)
  have "upload df worksheet_name sheet = append_rows worksheet_name (df_values df) sheet"
    using assms w(1) by (simp add: upload_existing [of sheet worksheet_name w] upload_write_def)
  moreover have "append_rows worksheet_name (df_values df) sheet
      = (Inr (), sheet(worksheet_name \<mapsto> store w (old @ df_values df)))"
    using w by (simp add: append_rows_def)
  ultimately show ?thesis using assms(2) by (simp add: get_all_values_def store_def)
qed

theorem upload_nonempty_tab_appends_witness:
  "get_all_values [''T'' \<mapsto> \<lparr>row_count = 2, col_count = 1, cells = [[''X''], [''1'']]\<rparr>] ''T''
     = Inr [[''X''], [''1'']]
   \<and> [[''X''], [''1'']] \<noteq> ([] :: string list list)
   \<and> get_all_values
        (snd (upload \<lparr>columns = [''Y''], df_values = [[''2'']]\<rparr> ''T''
                [''T'' \<mapsto> \<lparr>row_count = 2, col_count = 1, cells = [[''X''], [''1'']]\<rparr>])) ''T''
       = Inr [[''X''], [''1''], [''2'']]"
proof -
  have h: "get_all_values
             [''T'' \<mapsto> \<lparr>row_count = 2, col_count = 1, cells = [[''X''], [''1'']]\<rparr>] ''T''
      = Inr [[''X''], [''1'']]"
    by (simp add: get_all_values_def)
  have n: "[[''X''], [''1'']] \<noteq> ([] :: string list list)" by simp
  have "get_all_values
          (snd (upload \<lparr>columns = [''Y''], df_values = [[''2'']]\<rparr> ''T''
                  [''T'' \<mapsto> \<lparr>row_count = 2, col_count = 1, cells = [[''X''], [''1'']]\<rparr>])) ''T''
        = Inr ([[''X''], [''1'']] @ df_values \<lparr>columns = [''Y''], df_values = [[''2'']]\<rparr>)"
    using upload_nonempty_tab_appends [OF h n] by blast
  then show ?thesis using h by simp
qed

text \<open>
  C9.  \<^verbatim>\<open>get_sheet_as_df\<close> on an existing tab whose value grid has no rows returns no
  table: nothing tests for the empty grid, and taking the header from the first row
  raises \<^verbatim>\<open>IndexError\<close>.
\<close>

theorem get_sheet_as_df_empty_grid:
  assumes "get_all_values sheet worksheet_name = Inr []"
  shows "get_sheet_as_df sheet worksheet_name = (Inl IndexError, [])"
proof -
  from assms obtain w where "sheet worksheet_name = Some w" "cells w = []"
    by (auto simp: get_all_values_Inr)
  then show ?thesis
    by (simp add: get_sheet_as_df_def get_focus_tab_def worksheet_def get_all_values_def
        getitem0_def)
qed

theorem get_sheet_as_df_empty_grid_witness:
  "get_all_values [''T'' \<mapsto> \<lparr>row_count = 1, col_count = 1, cells = []\<rparr>] ''T'' = Inr []
   \<and> get_sheet_as_df [''T'' \<mapsto> \<lparr>row_count = 1, col_count = 1, cells = []\<rparr>] ''T''
       = (Inl IndexError, [])"
proof -
  have h: "get_all_values [''T'' \<mapsto> \<lparr>row_count = 1, col_count = 1, cells = []\<rparr>] ''T'' = Inr []"
    by (simp add: get_all_values_def)
  show ?thesis using h get_sheet_as_df_empty_grid [OF h] by simp
qed

text \<open>
  C4.  The claim is that \<^verbatim>\<open>upload\<close> with a tab name absent from the document creates
  the tab and then writes.  The lookup of an absent tab raises \<^verbatim>\<open>WorksheetNotFound\<close>,
  which the handler for \<^verbatim>\<open>SpreadsheetNotFound\<close> does not intercept: the call raises,
  and the document is as it was, without the tab.
\<close>

theorem upload_missing_tab_raises:
  "upload \<lparr>columns = [''Name'', ''Age''], df_values = [[''Ann'', ''30''], [''Bo'', ''25'']]\<rparr>
     ''People'' [''Sheet1'' \<mapsto> \<lparr>row_count = 2, col_count = 1, cells = [[''X''], [''1'']]\<rparr>]
   = (Inl WorksheetNotFound,
      [''Sheet1'' \<mapsto> \<lparr>row_count = 2, col_count = 1, cells = [[''X''], [''1'']]\<rparr>])
   \<and> snd (upload
        \<lparr>columns = [''Name'', ''Age''], df_values = [[''Ann'', ''30''], [''Bo'', ''25'']]\<rparr>
        ''People'' [''Sheet1'' \<mapsto> \<lparr>row_count = 2, col_count = 1, cells = [[''X''], [''1'']]\<rparr>])
       ''People'' = None"
  by (simp add: upload_def upload_resolve_def worksheet_def)

text \<open>
  C5.  The claim is that the three readers return \<^verbatim>\<open>None\<close> on a tab name that is not
  in the document and never raise.  Each of them raises \<^verbatim>\<open>WorksheetNotFound\<close>, for
  the reason given at C4, and prints nothing.
\<close>

theorem readers_missing_tab_raise:
  "get_sheet_as_df
     [''Sheet1'' \<mapsto> \<lparr>row_count = 2, col_count = 1, cells = [[''X''], [''1'']]\<rparr>] ''Missing''
     = (Inl WorksheetNotFound, [])
   \<and> get_col_values_as_list col_values
       [''Sheet1'' \<mapsto> \<lparr>row_count = 2, col_count = 1, cells = [[''X''], [''1'']]\<rparr>] ''Missing''
       ''A''
     = (Inl WorksheetNotFound, [])
   \<and> get_cell_value acell_value
       [''Sheet1'' \<mapsto> \<lparr>row_count = 2, col_count = 1, cells = [[''X''], [''1'']]\<rparr>] ''Missing''
       ''A1''
     = (Inl WorksheetNotFound, [])"
  by (simp add: get_sheet_as_df_def get_col_values_as_list_def get_cell_value_def
      get_focus_tab_def worksheet_def)

text \<open>
  C8.  The claim is that a table written into a tab that did not exist is read back
  unchanged.  The write raises \<^verbatim>\<open>WorksheetNotFound\<close>, for the reason given at C4, and
  so does the read that follows.
\<close>

theorem roundtrip_missing_tab_raises:
  "fst (upload
         \<lparr>columns = [''Name'', ''Age''], df_values = [[''Ann'', ''30''], [''Bo'', ''25'']]\<rparr>
         ''People'' Map.empty) = Inl WorksheetNotFound
   \<and> get_sheet_as_df
        (snd (upload
               \<lparr>columns = [''Name'', ''Age''], df_values = [[''Ann'', ''30''], [''Bo'', ''25'']]\<rparr>
               ''People'' Map.empty)) ''People''
       = (Inl WorksheetNotFound, [])"
  by (simp add: upload_def upload_resolve_def get_sheet_as_df_def get_focus_tab_def
      worksheet_def)

end
